theory Spec2Isabelle
  imports Main "HOL-Library.Char_ord" "HOL-Library.List_Lexorder"
begin

section \<open>Python values used by the case model\<close>

text \<open>
  A Python \<open>str\<close> is modelled as a \<open>string\<close> holding its UTF-8 bytes: equality of
  strings is equality of the byte lists, and the lexicographic order on the bytes
  (\<open>Char_ord\<close> with \<open>List_Lexorder\<close>) is Python's order by code point, with a proper
  prefix below the longer string. \<open>datetime\<close> values are opaque instants.
\<close>

type_synonym datetime = nat

text \<open>
  A \<open>dict\<close> keeps its keys in insertion order, and \<open>sorted\<close> is stable, so the order is
  part of the model: a dict is an association list with one entry for each key.
  \<open>d[k] = v\<close> overwrites the entry of \<open>k\<close> where it stands and appends a new key at the
  end; \<open>del d[k]\<close> drops the entry; \<open>k in d\<close> looks among the keys.
\<close>

type_synonym ('k, 'v) dict = "('k \<times> 'v) list"

definition dict_keys :: "('k, 'v) dict \<Rightarrow> 'k list" where
  "dict_keys d = map fst d"

definition dict_contains :: "('k, 'v) dict \<Rightarrow> 'k \<Rightarrow> bool" where
  "dict_contains d k = (k \<in> set (dict_keys d))"

fun dict_set :: "('k, 'v) dict \<Rightarrow> 'k \<Rightarrow> 'v \<Rightarrow> ('k, 'v) dict" where
  "dict_set [] k v = [(k, v)]"
| "dict_set ((k', v') # d) k v =
     (if k' = k then (k, v) # d else (k', v') # dict_set d k v)"

definition dict_del :: "('k, 'v) dict \<Rightarrow> 'k \<Rightarrow> ('k, 'v) dict" where
  "dict_del d k = filter (\<lambda>kv. fst kv \<noteq> k) d"

definition dict_get :: "('k, 'v) dict \<Rightarrow> 'k \<Rightarrow> 'v option" where
  "dict_get d k = map_of d k"

text \<open>
  \<open>sorted(items, key=f, reverse=True)\<close>: descending by key, items with equal keys in
  their original order (the reverse flag keeps the sort stable). CPython reverses the
  list, sorts it stably in ascending order and reverses the result.
\<close>

definition sorted_reverse :: "('a \<Rightarrow> 'b::linorder) \<Rightarrow> 'a list \<Rightarrow> 'a list" where
  "sorted_reverse f xs = rev (sort_key f (rev xs))"

text \<open>Truth value of an \<open>Optional[str]\<close> argument: \<open>None\<close> and \<open>""\<close> are false.\<close>

definition truthy :: "string option \<Rightarrow> bool" where
  "truthy s = (case s of None \<Rightarrow> False | Some t \<Rightarrow> t \<noteq> [])"

section \<open>The case record (models/case\_model.py)\<close>

record CaseData =
  case_id :: string
  case_type :: string
  client :: string
  lawyer :: "string option"
  legal_affairs :: "string option"
  progress :: string
  case_reason :: "string option"
  case_number :: "string option"
  opposing_party :: "string option"
  court :: "string option"
  division :: "string option"
  progress_date :: "string option"
  progress_stages :: "(string, string) dict"
  progress_notes :: "(string, string) dict"
  progress_times :: "(string, string) dict"
  created_date :: datetime
  updated_date :: datetime

text \<open>
  The methods mutate \<open>self\<close>; the model returns the updated record. The clock is an
  argument: \<open>today\<close> is \<open>datetime.now().strftime('%Y-%m-%d')\<close> and \<open>now\<close> is the
  \<open>datetime.now()\<close> stored in \<open>updated_date\<close>.
\<close>

definition update_progress ::
  "string \<Rightarrow> datetime \<Rightarrow> CaseData \<Rightarrow> string \<Rightarrow> string option \<Rightarrow> string option \<Rightarrow> string option
     \<Rightarrow> CaseData" where
  "update_progress today now self new_progress progress_date_arg note time =
     (let progress_date' = (case progress_date_arg of None \<Rightarrow> today | Some d \<Rightarrow> d);
          s1 = self\<lparr>progress := new_progress,
                    progress_date := Some progress_date',
                    progress_stages := dict_set (progress_stages self) new_progress progress_date'\<rparr>;
          s2 = (if truthy note
                then s1\<lparr>progress_notes := dict_set (progress_notes s1) new_progress (the note)\<rparr>
                else if dict_contains (progress_notes s1) new_progress \<and> \<not> truthy note
                then s1\<lparr>progress_notes := dict_del (progress_notes s1) new_progress\<rparr>
                else s1);
          s3 = (if truthy time
                then s2\<lparr>progress_times := dict_set (progress_times s2) new_progress (the time)\<rparr>
                else if dict_contains (progress_times s2) new_progress \<and> \<not> truthy time
                then s2\<lparr>progress_times := dict_del (progress_times s2) new_progress\<rparr>
                else s2)
      in s3\<lparr>updated_date := now\<rparr>)"


text \<open>
  \<open>remove_progress_stage\<close> returns its boolean together with the updated record. Its
  \<open>try\<close> block holds dictionary deletions guarded by membership tests and a sort of
  string pairs by a string key, none of which raises. \<open>sorted_stages[0]\<close> would raise
  IndexError on an empty list; the \<open>except\<close> branch then returns \<open>False\<close> with the
  deletions already made (\<open>None\<close> below).
\<close>

definition remove_progress_stage :: "datetime \<Rightarrow> CaseData \<Rightarrow> string \<Rightarrow> bool \<times> CaseData" where
  "remove_progress_stage now self stage_name =
     (let removed_anything = dict_contains (progress_stages self) stage_name;
          s1 = (if dict_contains (progress_stages self) stage_name
                then self\<lparr>progress_stages := dict_del (progress_stages self) stage_name\<rparr>
                else self);
          s2 = (if dict_contains (progress_notes s1) stage_name
                then s1\<lparr>progress_notes := dict_del (progress_notes s1) stage_name\<rparr>
                else s1);
          s3 = (if dict_contains (progress_times s2) stage_name
                then s2\<lparr>progress_times := dict_del (progress_times s2) stage_name\<rparr>
                else s2);
          reassigned =
            (if stage_name = progress s3
             then if progress_stages s3 \<noteq> []
                  then (case sorted_reverse snd (progress_stages s3) of
                          [] \<Rightarrow> None
                        | newest # _ \<Rightarrow> Some (s3\<lparr>progress := fst newest\<rparr>))
                  else Some (s3\<lparr>progress := []\<rparr>)
             else Some s3)
      in case reassigned of
           None \<Rightarrow> (False, s3)
         | Some s4 \<Rightarrow>
             if removed_anything then (True, s4\<lparr>updated_date := now\<rparr>) else (False, s4))"



text \<open>
  Example records. \<open>default_progress\<close> is the dataclass default of \<open>progress\<close>, the
  three-character status meaning "pending", as UTF-8 bytes; \<open>new_case\<close> is a record
  as the constructor leaves it, \<open>two_stage_case\<close> and \<open>one_stage_case\<close> are the
  records of the stage-removal examples.
\<close>

definition default_progress :: string where
  "default_progress =
     [CHR 0xE5, CHR 0xBE, CHR 0x85, CHR 0xE8, CHR 0x99, CHR 0x95, CHR 0xE7, CHR 0x90, CHR 0x86]"

definition new_case :: CaseData where
  "new_case =
     \<lparr>case_id = ''A1'', case_type = ''civil'', client = ''Mr. X'',
      lawyer = None, legal_affairs = None, progress = default_progress,
      case_reason = None, case_number = None, opposing_party = None,
      court = None, division = None, progress_date = None,
      progress_stages = [], progress_notes = [], progress_times = [],
      created_date = 0, updated_date = 0\<rparr>"

definition two_stage_case :: CaseData where
  "two_stage_case =
     new_case\<lparr>progress := ''hearing'', progress_date := Some ''2024-03-01'',
       progress_stages := [(''filed'', ''2024-01-01''), (''hearing'', ''2024-03-01'')],
       progress_notes := [(''hearing'', ''bring the file'')],
       progress_times := [(''hearing'', ''09:30'')]\<rparr>"

definition one_stage_case :: CaseData where
  "one_stage_case =
     new_case\<lparr>progress := ''filed'', progress_date := Some ''2024-01-01'',
       progress_stages := [(''filed'', ''2024-01-01'')]\<rparr>"

section \<open>The controller (controllers/case\_controller.py)\<close>

text \<open>
  The controller works on three stores: the records held by the data manager (and the
  references to them kept by the validator and the progress manager), the directory
  tree, and whatever else its collaborators keep (spreadsheets, progress files, the
  saved data file), which is the field \<open>other\<close>. \<open>fs\<close> is the set of paths that exist
  on disk, so \<open>os.path.exists(p)\<close> is \<open>p \<in> fs w\<close>.
\<close>

record 'x world =
  data_manager_cases :: "CaseData list"
  validator_cases :: "CaseData list"
  progress_manager_cases :: "CaseData list"
  fs :: "string set"
  other :: 'x

text \<open>
  A call either returns a value or raises, and leaves a world behind in both cases.
  \<open>add_case\<close> tells \<open>AttributeError\<close> from the other exceptions; each carries the text
  that \<open>str(e)\<close> gives.
\<close>

datatype exn = AttributeError string | OtherException string

type_synonym ('x, 'a) call = "'x world \<Rightarrow> (exn + 'a) \<times> 'x world"

fun exn_text :: "exn \<Rightarrow> string" where
  "exn_text (AttributeError m) = m"
| "exn_text (OtherException m) = m"

text \<open>
  The managers the controller delegates to (\<open>CaseDataManager\<close>, \<open>CaseValidator\<close>,
  \<open>CaseImportExport\<close>, \<open>CaseProgressManager\<close>), the configuration table
  \<open>AppConfig.CASE_TYPE_FOLDERS\<close> and \<open>shutil.rmtree\<close> are arguments of the model: one
  field for each method the controller calls, free to return anything, to raise and to
  change the world.
\<close>

record 'x collaborators =
  CASE_TYPE_FOLDERS :: "(string, string) dict"
  dm_add_case :: "CaseData \<Rightarrow> ('x, bool) call"
  dm_delete_case :: "string \<Rightarrow> string \<Rightarrow> ('x, bool) call"
  dm_get_cases :: "('x, CaseData list) call"
  dm_get_case_by_id :: "string \<Rightarrow> ('x, CaseData option) call"
  dm_save_cases :: "('x, bool) call"
  dm_update_case_id_with_files :: "string \<Rightarrow> string \<Rightarrow> string \<Rightarrow> ('x, bool \<times> string) call"
  validate_case_id_update :: "string \<Rightarrow> string \<Rightarrow> string \<Rightarrow> ('x, bool \<times> string) call"
  update_excel_content_for_case_id_change :: "string \<Rightarrow> string \<Rightarrow> ('x, bool \<times> string) call"
  update_progress_files_for_case_id_change :: "string \<Rightarrow> string \<Rightarrow> ('x, bool \<times> string) call"
  pm_add_progress_stage ::
    "string \<Rightarrow> string \<Rightarrow> string \<Rightarrow> string option \<Rightarrow> string option \<Rightarrow> ('x, bool) call"
  pm_update_progress_stage ::
    "string \<Rightarrow> string \<Rightarrow> string \<Rightarrow> string option \<Rightarrow> string option \<Rightarrow> ('x, bool) call"
  pm_remove_progress_stage :: "string \<Rightarrow> string \<Rightarrow> ('x, bool) call"
  shutil_rmtree :: "string \<Rightarrow> ('x, unit) call"

text \<open>
  The folder manager is an object probed with \<open>hasattr\<close>: a field is \<open>None\<close> when the
  object lacks the attribute. \<open>fm_operations\<close> is \<open>None\<close> also when the attribute is
  falsy; \<open>fm_creator\<close> is \<open>creator.create_case_folder_structure\<close>. A method that is
  missing on \<open>operations\<close> or \<open>creator\<close> is a call raising \<open>AttributeError\<close>.
\<close>

record 'x folder_operations =
  op_get_case_folder_path :: "CaseData \<Rightarrow> ('x, string option) call"
  op_delete_case_folder :: "CaseData \<Rightarrow> ('x, bool \<times> string) call"

record 'x folder_manager =
  fm_get_case_folder_path :: "(CaseData \<Rightarrow> ('x, string option) call) option"
  fm_delete_case_folder :: "(CaseData \<Rightarrow> ('x, bool) call) option"
  fm_create_case_folder_structure :: "(CaseData \<Rightarrow> ('x, bool) call) option"
  fm_operations :: "'x folder_operations option"
  fm_creator :: "(CaseData \<Rightarrow> ('x, bool \<times> string) call) option"

record 'x controller =
  data_folder :: string
  folder_manager :: "'x folder_manager"

subsection \<open>Path resolution\<close>

text \<open>
  \<open>os.path.join\<close> of \<open>posixpath\<close>: a component starting with a slash replaces what was
  joined so far; otherwise it is appended, after a slash unless the path so far is empty
  or ends with one.
\<close>

fun os_path_join :: "string \<Rightarrow> string list \<Rightarrow> string" where
  "os_path_join path [] = path"
| "os_path_join path (b # p) =
     os_path_join
       (if b \<noteq> [] \<and> hd b = CHR ''/'' then b
        else if path = [] \<or> last path = CHR ''/'' then path @ b
        else path @ ''/'' @ b) p"

text \<open>\<open>d.get(k, dflt)\<close>\<close>

definition dict_get_default :: "('k, 'v) dict \<Rightarrow> 'k \<Rightarrow> 'v \<Rightarrow> 'v" where
  "dict_get_default d k dflt = (case dict_get d k of None \<Rightarrow> dflt | Some v \<Rightarrow> v)"

text \<open>
  The resolver of \<open>BasicFolderManager\<close> and the one \<open>_patch_folder_manager\<close> attaches.
  With string fields and the configuration already imported by the module, nothing in
  their \<open>try\<close> blocks raises.
\<close>

definition basic_get_case_folder_path ::
  "'x collaborators \<Rightarrow> string \<Rightarrow> CaseData \<Rightarrow> ('x, string option) call" where
  "basic_get_case_folder_path E base_data_folder case_data w =
     (let case_type_folder =
            dict_get_default (CASE_TYPE_FOLDERS E) (case_type case_data) (case_type case_data);
          folder_path = os_path_join base_data_folder [case_type_folder, client case_data]
      in (Inr (if folder_path \<in> fs w then Some folder_path else None), w))"

definition patched_get_case_folder_path ::
  "'x collaborators \<Rightarrow> string \<Rightarrow> CaseData \<Rightarrow> ('x, string option) call" where
  "patched_get_case_folder_path E data_folder' case_data w =
     (let case_type_folder =
            dict_get_default (CASE_TYPE_FOLDERS E) (case_type case_data) (case_type case_data)
      in (Inr (Some (os_path_join data_folder' [case_type_folder, client case_data])), w))"

definition create_basic_folder_manager :: "'x collaborators \<Rightarrow> string \<Rightarrow> 'x folder_manager" where
  "create_basic_folder_manager E data_folder' =
     \<lparr>fm_get_case_folder_path = Some (basic_get_case_folder_path E data_folder'),
      fm_delete_case_folder = None,
      fm_create_case_folder_structure = None,
      fm_operations = None,
      fm_creator = None\<rparr>"

definition patch_folder_manager ::
  "'x collaborators \<Rightarrow> string \<Rightarrow> 'x folder_manager \<Rightarrow> 'x folder_manager" where
  "patch_folder_manager E data_folder' fm =
     (case fm_get_case_folder_path fm of
        None \<Rightarrow> fm\<lparr>fm_get_case_folder_path := Some (patched_get_case_folder_path E data_folder')\<rparr>
      | Some _ \<Rightarrow> fm)"

text \<open>
  The choice made by \<open>__init__\<close>: the new folder manager, else the old one, else the
  basic one (\<open>None\<close> stands for the \<open>ImportError\<close>); a manager without
  \<open>get_case_folder_path\<close> is patched.
\<close>

definition init_folder_manager ::
  "'x collaborators \<Rightarrow> string \<Rightarrow> 'x folder_manager option \<Rightarrow> 'x folder_manager option
     \<Rightarrow> 'x folder_manager" where
  "init_folder_manager E data_folder' new_folder_manager old_folder_manager =
     (let fm = (case new_folder_manager of
                  Some m \<Rightarrow> m
                | None \<Rightarrow> (case old_folder_manager of
                             Some m \<Rightarrow> m
                           | None \<Rightarrow> create_basic_folder_manager E data_folder'))
      in case fm_get_case_folder_path fm of
           None \<Rightarrow> patch_folder_manager E data_folder' fm
         | Some _ \<Rightarrow> fm)"

subsection \<open>Operations on the records\<close>

text \<open>
  \<open>_sync_managers\<close> hands the data manager's records to the validator and the progress
  manager; it catches its own exceptions.
\<close>

definition sync_managers :: "'x world \<Rightarrow> 'x world" where
  "sync_managers w =
     w\<lparr>validator_cases := data_manager_cases w, progress_manager_cases := data_manager_cases w\<rparr>"



definition get_case_by_id :: "'x collaborators \<Rightarrow> string \<Rightarrow> ('x, CaseData option) call" where
  "get_case_by_id E case_id' w = dm_get_case_by_id E case_id' w"


text \<open>
  \<open>add_case\<close>: the folder structure is created only after the data manager accepted the
  record. A missing \<open>create_case_folder_structure\<close> raises \<open>AttributeError\<close>, which,
  like one raised inside the method, leads to the backup through \<open>creator\<close>.
\<close>

definition add_case ::
  "'x collaborators \<Rightarrow> 'x controller \<Rightarrow> CaseData \<Rightarrow> 'x world \<Rightarrow> bool \<times> 'x world" where
  "add_case E self case_data w =
     (case dm_add_case E case_data w of
        (Inl e, w1) \<Rightarrow> (False, w1)
      | (Inr result, w1) \<Rightarrow>
          if result
          then (let w2 = sync_managers w1;
                    backup = (\<lambda>w'. case fm_creator (folder_manager self) of
                                      None \<Rightarrow> w'
                                    | Some create \<Rightarrow> snd (create case_data w'));
                    w3 = (case fm_create_case_folder_structure (folder_manager self) of
                            None \<Rightarrow> backup w2
                          | Some create \<Rightarrow>
                              (case create case_data w2 of
                                 (Inr folder_result, w') \<Rightarrow> w'
                               | (Inl (AttributeError m), w') \<Rightarrow> backup w'
                               | (Inl (OtherException m), w') \<Rightarrow> w'))
                in (result, w3))
          else (result, w1))"


subsection \<open>Deleting a case\<close>

text \<open>
  \<open>delete_case_folder\<close>, in its two phases. The path comes from the folder manager,
  and from \<open>operations\<close> when that gave nothing; a resolver that raises leaves the path
  as it was.
\<close>

definition resolve_folder_path ::
  "'x controller \<Rightarrow> CaseData \<Rightarrow> 'x world \<Rightarrow> string option \<times> 'x world" where
  "resolve_folder_path self case' w =
     (case (case fm_get_case_folder_path (folder_manager self) of
              None \<Rightarrow> (None, w)
            | Some get \<Rightarrow>
                (case get case' w of
                   (Inr p, w') \<Rightarrow> (p, w')
                 | (Inl e, w') \<Rightarrow> (None, w')))
      of (folder_path, w1) \<Rightarrow>
        if \<not> truthy folder_path
        then (case fm_operations (folder_manager self) of
                None \<Rightarrow> (folder_path, w1)
              | Some ops \<Rightarrow>
                  (case op_get_case_folder_path ops case' w1 of
                     (Inr p, w') \<Rightarrow> (p, w')
                   | (Inl e, w') \<Rightarrow> (folder_path, w')))
        else (folder_path, w1))"

text \<open>
  Three attempts, each made only while no earlier one reported success: the folder
  manager's own method, the one of \<open>operations\<close>, and \<open>shutil.rmtree\<close>. An attempt
  that raises counts as not successful.
\<close>

definition attempt_deletion ::
  "'x collaborators \<Rightarrow> 'x controller \<Rightarrow> CaseData \<Rightarrow> string \<Rightarrow> 'x world \<Rightarrow> bool \<times> 'x world" where
  "attempt_deletion E self case' folder_path w =
     (case (case fm_delete_case_folder (folder_manager self) of
              None \<Rightarrow> (False, w)
            | Some delete \<Rightarrow>
                (case delete case' w of
                   (Inr deleted, w') \<Rightarrow> (deleted, w')
                 | (Inl e, w') \<Rightarrow> (False, w')))
      of (success1, w1) \<Rightarrow>
     (case (if \<not> success1
            then (case fm_operations (folder_manager self) of
                    None \<Rightarrow> (success1, w1)
                  | Some ops \<Rightarrow>
                      (case op_delete_case_folder ops case' w1 of
                         (Inr (success, message), w') \<Rightarrow> (success, w')
                       | (Inl e, w') \<Rightarrow> (success1, w')))
            else (success1, w1))
      of (success2, w2) \<Rightarrow>
        if \<not> success2
        then (case shutil_rmtree E folder_path w2 of
                (Inr u, w') \<Rightarrow> (True, w')
              | (Inl e, w') \<Rightarrow> (False, w'))
        else (success2, w2)))"

text \<open>
  The listing of the folder's contents between the two phases only prints, and catches
  its own exceptions. An exception of the lookup reaches the outer handler.
\<close>

definition delete_case_folder ::
  "'x collaborators \<Rightarrow> 'x controller \<Rightarrow> string \<Rightarrow> 'x world \<Rightarrow> bool \<times> 'x world" where
  "delete_case_folder E self case_id' w =
     (case get_case_by_id E case_id' w of
        (Inl e, w0) \<Rightarrow> (False, w0)
      | (Inr None, w0) \<Rightarrow> (False, w0)
      | (Inr (Some case'), w0) \<Rightarrow>
          (case resolve_folder_path self case' w0 of
             (folder_path, w1) \<Rightarrow>
               if \<not> truthy folder_path then (False, w1)
               else if the folder_path \<notin> fs w1 then (True, w1)
               else (case attempt_deletion E self case' (the folder_path) w1 of
                       (deletion_success, w2) \<Rightarrow>
                         if deletion_success
                         then if the folder_path \<in> fs w2 then (False, w2) else (True, w2)
                         else (deletion_success, w2))))"



subsection \<open>Renaming a case id\<close>

text \<open>The texts of the messages, as UTF-8 bytes, and \<open>sep.join(parts)\<close>.\<close>

definition excel_updated_msg :: string where
  "excel_updated_msg =
     [CHR 0x45, CHR 0x78, CHR 0x63, CHR 0x65, CHR 0x6C, CHR 0xE5, CHR 0x85, CHR 0xA7, CHR
     0xE5, CHR 0xAE, CHR 0xB9, CHR 0xE5, CHR 0xB7, CHR 0xB2, CHR 0xE6, CHR 0x9B, CHR 0xB4,
     CHR 0xE6, CHR 0x96, CHR 0xB0]"

definition progress_files_updated_msg :: string where
  "progress_files_updated_msg =
     [CHR 0xE9, CHR 0x80, CHR 0xB2, CHR 0xE5, CHR 0xBA, CHR 0xA6, CHR 0xE6, CHR 0xAA, CHR
     0x94, CHR 0xE6, CHR 0xA1, CHR 0x88, CHR 0xE5, CHR 0xB7, CHR 0xB2, CHR 0xE6, CHR 0x9B,
     CHR 0xB4, CHR 0xE6, CHR 0x96, CHR 0xB0]"

definition fullwidth_comma :: string where
  "fullwidth_comma =
     [CHR 0xEF, CHR 0xBC, CHR 0x8C]"

definition coordination_failed_prefix :: string where
  "coordination_failed_prefix =
     [CHR 0xE5, CHR 0x8D, CHR 0x94, CHR 0xE8, CHR 0xAA, CHR 0xBF, CHR 0xE6, CHR 0x9B, CHR
     0xB4, CHR 0xE6, CHR 0x96, CHR 0xB0, CHR 0xE5, CHR 0xA4, CHR 0xB1, CHR 0xE6, CHR 0x95,
     CHR 0x97, CHR 0x3A, CHR 0x20]"

fun str_join :: "string \<Rightarrow> string list \<Rightarrow> string" where
  "str_join sep [] = []"
| "str_join sep [x] = x"
| "str_join sep (x # y # ys) = x @ sep @ str_join sep (y # ys)"

text \<open>
  Steps 3 and 4 of \<open>update_case_id\<close> are called outside any inner \<open>try\<close>: an exception
  from any of the four calls reaches the handler of the whole method.
\<close>

definition update_case_id ::
  "'x collaborators \<Rightarrow> string \<Rightarrow> string \<Rightarrow> string \<Rightarrow> 'x world \<Rightarrow> (bool \<times> string) \<times> 'x world" where
  "update_case_id E old_case_id case_type' new_case_id w =
     (case validate_case_id_update E old_case_id case_type' new_case_id w of
        (Inl e, w1) \<Rightarrow> ((False, coordination_failed_prefix @ exn_text e), w1)
      | (Inr (validation_success, validation_message), w1) \<Rightarrow>
          if \<not> validation_success then ((False, validation_message), w1)
          else
     (case dm_update_case_id_with_files E old_case_id case_type' new_case_id w1 of
        (Inl e, w2) \<Rightarrow> ((False, coordination_failed_prefix @ exn_text e), w2)
      | (Inr (data_update_success, data_message), w2) \<Rightarrow>
          if \<not> data_update_success then ((False, data_message), w2)
          else
     (case update_excel_content_for_case_id_change E old_case_id new_case_id w2 of
        (Inl e, w3) \<Rightarrow> ((False, coordination_failed_prefix @ exn_text e), w3)
      | (Inr (excel_update_success, excel_message), w3) \<Rightarrow>
     (case update_progress_files_for_case_id_change E old_case_id new_case_id w3 of
        (Inl e, w4) \<Rightarrow> ((False, coordination_failed_prefix @ exn_text e), w4)
      | (Inr (progress_update_success, progress_message), w4) \<Rightarrow>
          (let result_parts =
                 [data_message]
                 @ (if excel_update_success then [excel_updated_msg] else [])
                 @ (if progress_update_success then [progress_files_updated_msg] else [])
           in ((True, str_join fullwidth_comma result_parts), sync_managers w4))))))"

subsection \<open>Progress stages\<close>




subsection \<open>Reading the folder path\<close>

text \<open>
  The controller's \<open>get_case_folder_path\<close>: any exception, also the
  \<open>AttributeError\<close> of a manager without the method, gives \<open>None\<close>.
\<close>

definition get_case_folder_path ::
  "'x collaborators \<Rightarrow> 'x controller \<Rightarrow> string \<Rightarrow> 'x world \<Rightarrow> string option \<times> 'x world" where
  "get_case_folder_path E self case_id' w =
     (case get_case_by_id E case_id' w of
        (Inl e, w1) \<Rightarrow> (None, w1)
      | (Inr None, w1) \<Rightarrow> (None, w1)
      | (Inr (Some case'), w1) \<Rightarrow>
          (case fm_get_case_folder_path (folder_manager self) of
             None \<Rightarrow> (None, w1)
           | Some get \<Rightarrow>
               (case get case' w1 of
                  (Inl e, w2) \<Rightarrow> (None, w2)
                | (Inr p, w2) \<Rightarrow> (p, w2))))"


subsection \<open>An instance of the collaborators\<close>

text \<open>
  To run the operations on concrete inputs: an in-memory store of records in which
  \<open>add\<close> refuses a record whose id and type are taken, \<open>delete\<close> and the rename need
  the record to exist, lookup by id takes the first match, saving succeeds, the
  validator refuses a new id already used in the case type, the spreadsheet and the
  progress files accept every rename, stage operations apply the record's own methods,
  and \<open>rmtree\<close> removes the path. Variants that fail are made from it by replacing a
  field.
\<close>

definition has_case :: "string \<Rightarrow> string \<Rightarrow> CaseData list \<Rightarrow> bool" where
  "has_case i t cs = list_ex (\<lambda>c. case_id c = i \<and> case_type c = t) cs"

definition on_case :: "string \<Rightarrow> (CaseData \<Rightarrow> CaseData) \<Rightarrow> CaseData list \<Rightarrow> CaseData list" where
  "on_case i f cs = map (\<lambda>c. if case_id c = i then f c else c) cs"

definition demo_collaborators :: "unit collaborators" where
  "demo_collaborators =
     \<lparr>CASE_TYPE_FOLDERS = [(''civil'', ''civil_cases''), (''criminal'', ''criminal_cases'')],
      dm_add_case = (\<lambda>c w.
        if has_case (case_id c) (case_type c) (data_manager_cases w) then (Inr False, w)
        else (Inr True, w\<lparr>data_manager_cases := data_manager_cases w @ [c]\<rparr>)),
      dm_delete_case = (\<lambda>i t w.
        if has_case i t (data_manager_cases w)
        then (Inr True,
              w\<lparr>data_manager_cases :=
                  filter (\<lambda>c. \<not> (case_id c = i \<and> case_type c = t)) (data_manager_cases w)\<rparr>)
        else (Inr False, w)),
      dm_get_cases = (\<lambda>w. (Inr (data_manager_cases w), w)),
      dm_get_case_by_id = (\<lambda>i w. (Inr (find (\<lambda>c. case_id c = i) (data_manager_cases w)), w)),
      dm_save_cases = (\<lambda>w. (Inr True, w)),
      dm_update_case_id_with_files = (\<lambda>old t new w.
        if has_case old t (data_manager_cases w)
        then (Inr (True, ''case id updated''),
              w\<lparr>data_manager_cases :=
                  map (\<lambda>c. if case_id c = old \<and> case_type c = t then c\<lparr>case_id := new\<rparr> else c)
                    (data_manager_cases w)\<rparr>)
        else (Inr (False, ''case not found''), w)),
      validate_case_id_update = (\<lambda>old t new w.
        (Inr (if has_case new t (validator_cases w) then (False, ''case id already in use'')
              else (True, [])), w)),
      update_excel_content_for_case_id_change = (\<lambda>old new w. (Inr (True, []), w)),
      update_progress_files_for_case_id_change = (\<lambda>old new w. (Inr (True, []), w)),
      pm_add_progress_stage = (\<lambda>i stage date note time w.
        if list_ex (\<lambda>c. case_id c = i) (data_manager_cases w)
        then (Inr True,
              w\<lparr>data_manager_cases :=
                  on_case i (\<lambda>c. update_progress date 1 c stage (Some date) note time)
                    (data_manager_cases w)\<rparr>)
        else (Inr False, w)),
      pm_update_progress_stage = (\<lambda>i stage date note time w.
        if list_ex (\<lambda>c. case_id c = i) (data_manager_cases w)
        then (Inr True,
              w\<lparr>data_manager_cases :=
                  on_case i (\<lambda>c. update_progress date 1 c stage (Some date) note time)
                    (data_manager_cases w)\<rparr>)
        else (Inr False, w)),
      pm_remove_progress_stage = (\<lambda>i stage w.
        if list_ex (\<lambda>c. case_id c = i \<and> dict_contains (progress_stages c) stage)
             (data_manager_cases w)
        then (Inr True,
              w\<lparr>data_manager_cases :=
                  on_case i (\<lambda>c. snd (remove_progress_stage 1 c stage)) (data_manager_cases w)\<rparr>)
        else (Inr False, w)),
      shutil_rmtree = (\<lambda>p w. (Inr (), w\<lparr>fs := fs w - {p}\<rparr>))\<rparr>"

text \<open>
  A world with the case A1 of Mr. X, with and without its folder on disk, and one with a
  second civil case.
\<close>

definition demo_world :: "unit world" where
  "demo_world =
     \<lparr>data_manager_cases = [two_stage_case],
      validator_cases = [two_stage_case],
      progress_manager_cases = [two_stage_case],
      fs = {''data'', ''data/civil_cases'', ''data/civil_cases/Mr. X''},
      other = ()\<rparr>"

definition demo_world_no_folder :: "unit world" where
  "demo_world_no_folder = demo_world\<lparr>fs := {''data'', ''data/civil_cases''}\<rparr>"

definition demo_world_two_cases :: "unit world" where
  "demo_world_two_cases =
     demo_world\<lparr>data_manager_cases := [two_stage_case, one_stage_case\<lparr>case_id := ''A2''\<rparr>],
                 validator_cases := [two_stage_case, one_stage_case\<lparr>case_id := ''A2''\<rparr>]\<rparr>"

text \<open>
  Controllers as \<open>__init__\<close> builds them: with the basic folder manager (no folder
  manager could be imported), with a patched one (the imported manager has no
  \<open>get_case_folder_path\<close>; here it has no other method either), and with a manager
  whose deletion method reports success and removes nothing.
\<close>

definition demo_data_folder :: string where
  "demo_data_folder = ''data''"

definition basic_controller :: "unit controller" where
  "basic_controller =
     \<lparr>data_folder = demo_data_folder,
      folder_manager = init_folder_manager demo_collaborators demo_data_folder None None\<rparr>"

definition bare_folder_manager :: "unit folder_manager" where
  "bare_folder_manager =
     \<lparr>fm_get_case_folder_path = None, fm_delete_case_folder = None,
      fm_create_case_folder_structure = None, fm_operations = None, fm_creator = None\<rparr>"

definition patched_controller :: "unit controller" where
  "patched_controller =
     \<lparr>data_folder = demo_data_folder,
      folder_manager =
        init_folder_manager demo_collaborators demo_data_folder (Some bare_folder_manager) None\<rparr>"

definition careless_controller :: "unit controller" where
  "careless_controller =
     \<lparr>data_folder = demo_data_folder,
      folder_manager =
        init_folder_manager demo_collaborators demo_data_folder
          (Some (bare_folder_manager\<lparr>fm_delete_case_folder := Some (\<lambda>c w. (Inr True, w))\<rparr>)) None\<rparr>"

text \<open>
  Collaborators that fail: a full disk when the folder structure is created, a locked
  spreadsheet, a save that reports failure, and a removal that is denied.
\<close>

definition failing_folder_creation :: "unit controller" where
  "failing_folder_creation =
     \<lparr>data_folder = demo_data_folder,
      folder_manager = bare_folder_manager
        \<lparr>fm_get_case_folder_path :=
           Some (patched_get_case_folder_path demo_collaborators demo_data_folder),
         fm_create_case_folder_structure :=
           Some (\<lambda>c w. (Inl (OtherException ''disk full''), w))\<rparr>\<rparr>"

definition excel_raises :: "unit collaborators" where
  "excel_raises =
     demo_collaborators\<lparr>update_excel_content_for_case_id_change :=
       (\<lambda>old new w. (Inl (OtherException ''file is locked''), w))\<rparr>"

definition excel_reports_failure :: "unit collaborators" where
  "excel_reports_failure =
     demo_collaborators\<lparr>update_excel_content_for_case_id_change :=
       (\<lambda>old new w. (Inr (False, ''file is locked''), w))\<rparr>"

definition save_fails :: "unit collaborators" where
  "save_fails = demo_collaborators\<lparr>dm_save_cases := (\<lambda>w. (Inr False, w))\<rparr>"

definition rmtree_denied :: "unit collaborators" where
  "rmtree_denied =
     demo_collaborators\<lparr>shutil_rmtree :=
       (\<lambda>p w. (Inl (OtherException ''permission denied''), w))\<rparr>"

section \<open>Dictionaries and the reverse sort\<close>

lemma dict_contains_Nil [simp]: "\<not> dict_contains [] k"
  by (simp add: dict_contains_def dict_keys_def)

lemma dict_contains_Cons [simp]:
  "dict_contains (kv # d) k \<longleftrightarrow> fst kv = k \<or> dict_contains d k"
  by (auto simp: dict_contains_def dict_keys_def)

lemma dict_contains_append [simp]:
  "dict_contains (d @ e) k \<longleftrightarrow> dict_contains d k \<or> dict_contains e k"
  by (auto simp: dict_contains_def dict_keys_def)

lemma dict_set_not_Nil [simp]: "dict_set d k v \<noteq> []"
  by (cases d) (auto split: if_splits)

lemma dict_contains_set [simp]:
  "dict_contains (dict_set d k v) k' \<longleftrightarrow> k' = k \<or> dict_contains d k'"
  by (induction d) (auto split: if_splits)

lemma dict_contains_del [simp]:
  "dict_contains (dict_del d k) k' \<longleftrightarrow> k' \<noteq> k \<and> dict_contains d k'"
  by (induction d) (auto simp: dict_del_def)

lemma dict_del_Nil [simp]: "dict_del [] k = []"
  by (simp add: dict_del_def)

lemma dict_del_Cons [simp]:
  "dict_del (kv # d) k = (if fst kv = k then dict_del d k else kv # dict_del d k)"
  by (simp add: dict_del_def)


lemma last_insort_key:
  "sorted (map f zs) \<Longrightarrow> zs \<noteq> [] \<Longrightarrow>
     last (insort_key f y zs) = (if f (last zs) < f y then y else last zs)"
proof (induction zs)
  case Nil
  then show ?case by simp
next
  case (Cons z zs)
  show ?case
  proof (cases "zs = []")
    case True
    then show ?thesis by auto
  next
    case False
    with Cons have ih: "last (insort_key f y zs) = (if f (last zs) < f y then y else last zs)"
      by simp
    have "f z \<le> f (last zs)" using Cons.prems False by auto
    with ih False show ?thesis by auto
  qed
qed

lemma sort_key_Nil_iff: "sort_key f ys = [] \<longleftrightarrow> ys = []"
proof -
  have "length (sort_key f ys) = length ys" by simp
  then show ?thesis by (cases ys; cases "sort_key f ys") simp_all
qed

text \<open>
  The last element of a stable ascending sort is the last of the elements with the
  largest key: everything after it in the input has a strictly smaller key.
\<close>

lemma last_sort_key_split:
  "ys \<noteq> [] \<Longrightarrow>
     \<exists>vs us. ys = vs @ last (sort_key f ys) # us \<and>
       (\<forall>v \<in> set vs. f v \<le> f (last (sort_key f ys))) \<and>
       (\<forall>u \<in> set us. f u < f (last (sort_key f ys)))"
proof (induction ys)
  case Nil
  then show ?case by simp
next
  case (Cons y ys)
  show ?case
  proof (cases "ys = []")
    case True
    then show ?thesis by (intro exI [of _ "[]"]) simp
  next
    case False
    define m where "m = last (sort_key f ys)"
    from Cons.IH False obtain vs us where
      split: "ys = vs @ m # us" and
      le: "\<forall>v \<in> set vs. f v \<le> f m" and lt: "\<forall>u \<in> set us. f u < f m"
      unfolding m_def by blast
    have ne: "sort_key f ys \<noteq> []" using False by (simp add: sort_key_Nil_iff)
    have l: "last (sort_key f (y # ys)) = (if f m < f y then y else m)"
      using last_insort_key [of f "sort_key f ys" y] ne by (simp add: m_def)
    show ?thesis
    proof (cases "f m < f y")
      case True
      have "\<forall>u \<in> set ys. f u < f y"
      proof
        fix u assume "u \<in> set ys"
        then have "u \<in> set vs \<or> u = m \<or> u \<in> set us"
          by (subst (asm) split) auto
        then show "f u < f y" using le lt True by auto
      qed
      then show ?thesis unfolding l using True
        by (intro exI [of _ "[]"] exI [of _ ys]) simp
    next
      case False
      have "y # ys = (y # vs) @ m # us" using split by simp
      moreover have "\<forall>v \<in> set (y # vs). f v \<le> f m" using le False by auto
      ultimately show ?thesis unfolding l using lt False
        by (intro exI [of _ "y # vs"] exI [of _ us]) simp
    qed
  qed
qed

lemma sorted_reverse_Nil_iff: "sorted_reverse f xs = [] \<longleftrightarrow> xs = []"
  by (simp add: sorted_reverse_def sort_key_Nil_iff)

text \<open>
  So the head of the reverse sort is the first, in the original order, of the elements
  with the largest key.
\<close>

lemma hd_sorted_reverse_split:
  assumes "sorted_reverse f xs = m # rest"
  shows "\<exists>us vs. xs = us @ m # vs \<and>
       (\<forall>u \<in> set us. f u < f m) \<and> (\<forall>v \<in> set vs. f v \<le> f m)"
proof -
  have xs: "xs \<noteq> []" using assms sorted_reverse_Nil_iff [of f xs] by auto
  then have ne: "sort_key f (rev xs) \<noteq> []" by (simp add: sort_key_Nil_iff)
  have "hd (sorted_reverse f xs) = last (sort_key f (rev xs))"
    using ne by (simp add: sorted_reverse_def hd_rev)
  then have m: "last (sort_key f (rev xs)) = m" using assms by simp
  from last_sort_key_split [of "rev xs" f] xs obtain vs us where
      split: "rev xs = vs @ m # us" and
      le: "\<forall>v \<in> set vs. f v \<le> f m" and lt: "\<forall>u \<in> set us. f u < f m"
    unfolding m by auto
  from split have "rev (rev xs) = rev (vs @ m # us)" by simp
  then have "xs = rev us @ m # rev vs" by simp
  then show ?thesis using le lt
    by (intro exI [of _ "rev us"] exI [of _ "rev vs"]) simp
qed

section \<open>Stage operations of the case record\<close>

lemma sorted_reverse_Nil [simp]: "sorted_reverse f [] = []"
  by (simp add: sorted_reverse_def)

lemma remove_progress_stage_fst:
  "fst (remove_progress_stage now self s) = dict_contains (progress_stages self) s"
  by (auto simp: remove_progress_stage_def Let_def sorted_reverse_Nil_iff split: list.splits)

lemma remove_progress_stage_stages:
  "progress_stages (snd (remove_progress_stage now self s)) =
     (if dict_contains (progress_stages self) s then dict_del (progress_stages self) s
      else progress_stages self)"
  by (auto simp: remove_progress_stage_def Let_def sorted_reverse_Nil_iff split: list.splits)

lemma remove_progress_stage_progress:
  "progress (snd (remove_progress_stage now self s)) =
     (if s = progress self
      then (case sorted_reverse snd (progress_stages (snd (remove_progress_stage now self s))) of
              [] \<Rightarrow> [] | newest # _ \<Rightarrow> fst newest)
      else progress self)"
  by (auto simp: remove_progress_stage_def Let_def sorted_reverse_Nil_iff split: list.splits)

lemma remove_progress_stage_progress_date:
  "progress_date (snd (remove_progress_stage now self s)) = progress_date self"
  by (auto simp: remove_progress_stage_def Let_def sorted_reverse_Nil_iff split: list.splits)

text \<open>
  C1. Removing a stage that is recorded and is the current progress returns \<open>True\<close>,
  drops the stage, and makes current the remaining stage with the latest date string;
  among several stages with that date the one recorded first wins, so the choice is a
  function of the record. With no stage left, \<open>progress\<close> is the empty string.
\<close>

theorem remove_progress_stage_reassigns_latest:
  assumes "dict_contains (progress_stages self) s" and "progress self = s"
  shows "fst (remove_progress_stage now self s) = True \<and>
         progress_stages (snd (remove_progress_stage now self s)) = dict_del (progress_stages self) s \<and>
         (if dict_del (progress_stages self) s = []
          then progress (snd (remove_progress_stage now self s)) = []
          else \<exists>us d vs.
                 dict_del (progress_stages self) s
                   = us @ (progress (snd (remove_progress_stage now self s)), d) # vs \<and>
                 (\<forall>u \<in> set us. snd u < d) \<and> (\<forall>v \<in> set vs. snd v \<le> d))"
proof (cases "sorted_reverse snd (dict_del (progress_stages self) s)")
  case Nil
  then have "dict_del (progress_stages self) s = []" by (simp add: sorted_reverse_Nil_iff)
  then show ?thesis using assms Nil
    by (simp add: remove_progress_stage_fst remove_progress_stage_stages
          remove_progress_stage_progress)
next
  case (Cons newest rest)
  then have ne: "dict_del (progress_stages self) s \<noteq> []"
    using sorted_reverse_Nil_iff [of snd "dict_del (progress_stages self) s"] by auto
  from hd_sorted_reverse_split [OF Cons] obtain us vs where
    "dict_del (progress_stages self) s = us @ newest # vs"
    "\<forall>u \<in> set us. snd u < snd newest" "\<forall>v \<in> set vs. snd v \<le> snd newest"
    by blast
  then have "\<exists>us d vs. dict_del (progress_stages self) s = us @ (fst newest, d) # vs \<and>
                 (\<forall>u \<in> set us. snd u < d) \<and> (\<forall>v \<in> set vs. snd v \<le> d)"
    by (intro exI [of _ us] exI [of _ "snd newest"] exI [of _ vs]) simp
  then show ?thesis using assms Cons ne
    by (simp add: remove_progress_stage_fst remove_progress_stage_stages
          remove_progress_stage_progress)
qed

text \<open>
  The two examples: from filed 2024-01-01 and hearing 2024-03-01 with the hearing
  current, removing the hearing makes filed current; removing the only stage empties
  \<open>progress\<close>.
\<close>

theorem remove_progress_stage_reassigns_latest_witness:
  "dict_contains (progress_stages two_stage_case) ''hearing'' \<and>
   progress two_stage_case = ''hearing'' \<and>
   dict_del (progress_stages two_stage_case) ''hearing'' = [(''filed'', ''2024-01-01'')] \<and>
   progress (snd (remove_progress_stage 7 two_stage_case ''hearing'')) = ''filed'' \<and>
   dict_contains (progress_stages one_stage_case) ''filed'' \<and>
   progress one_stage_case = ''filed'' \<and>
   dict_del (progress_stages one_stage_case) ''filed'' = [] \<and>
   progress (snd (remove_progress_stage 7 one_stage_case ''filed'')) = []"
proof -
  have h1: "dict_contains (progress_stages two_stage_case) ''hearing''"
    and h2: "progress two_stage_case = ''hearing''"
    by (simp_all add: two_stage_case_def new_case_def)
  have d1: "dict_del (progress_stages two_stage_case) ''hearing'' = [(''filed'', ''2024-01-01'')]"
    by (simp add: two_stage_case_def new_case_def)
  have g1: "progress (snd (remove_progress_stage 7 two_stage_case ''hearing'')) = ''filed''"
    using remove_progress_stage_reassigns_latest [OF h1 h2, of 7] unfolding d1
    by (auto simp: append_eq_Cons_conv Cons_eq_append_conv)
  have h3: "dict_contains (progress_stages one_stage_case) ''filed''"
    and h4: "progress one_stage_case = ''filed''"
    by (simp_all add: one_stage_case_def new_case_def)
  have d2: "dict_del (progress_stages one_stage_case) ''filed'' = []"
    by (simp add: one_stage_case_def new_case_def)
  have g2: "progress (snd (remove_progress_stage 7 one_stage_case ''filed'')) = []"
    using remove_progress_stage_reassigns_latest [OF h3 h4, of 7] unfolding d2 by simp
  show ?thesis using h1 h2 d1 g1 h3 h4 d2 g2 by simp
qed

text \<open>
  C9. When the removed stage is the current progress and other stages remain, the
  progress moves to another recorded stage while \<open>progress_date\<close> keeps the value it
  had before the call.
\<close>

theorem remove_progress_stage_keeps_progress_date:
  assumes "progress self = s" and "dict_del (progress_stages self) s \<noteq> []"
  shows "progress (snd (remove_progress_stage now self s)) \<noteq> s \<and>
         dict_contains (progress_stages (snd (remove_progress_stage now self s)))
           (progress (snd (remove_progress_stage now self s))) \<and>
         progress_date (snd (remove_progress_stage now self s)) = progress_date self"
proof -
  define rest where "rest = progress_stages (snd (remove_progress_stage now self s))"
  have rest: "rest = dict_del (progress_stages self) s"
  proof (cases "dict_contains (progress_stages self) s")
    case True
    then show ?thesis by (simp add: rest_def remove_progress_stage_stages)
  next
    case False
    then have "dict_del (progress_stages self) s = progress_stages self"
      by (induction "progress_stages self") (auto simp: dict_del_def dict_contains_def dict_keys_def filter_id_conv)
    with False show ?thesis by (simp add: rest_def remove_progress_stage_stages)
  qed
  with assms obtain newest more where sr: "sorted_reverse snd rest = newest # more"
    using sorted_reverse_Nil_iff [of snd rest] by (cases "sorted_reverse snd rest") auto
  from hd_sorted_reverse_split [OF sr] have "newest \<in> set rest" by auto
  then have mem: "dict_contains rest (fst newest)"
    by (auto simp: dict_contains_def dict_keys_def)
  have p: "progress (snd (remove_progress_stage now self s)) = fst newest"
    using assms(1) sr by (subst remove_progress_stage_progress) (simp add: rest_def)
  from mem have "fst newest \<noteq> s" unfolding rest by simp
  with mem p show ?thesis
    by (simp add: rest_def remove_progress_stage_progress_date)
qed

text \<open>
  In the example the progress becomes filed, recorded on 2024-01-01, and
  \<open>progress_date\<close> still holds 2024-03-01, the date of the removed hearing.
\<close>

theorem remove_progress_stage_keeps_progress_date_witness:
  "progress two_stage_case = ''hearing'' \<and>
   dict_del (progress_stages two_stage_case) ''hearing'' \<noteq> [] \<and>
   progress (snd (remove_progress_stage 7 two_stage_case ''hearing'')) = ''filed'' \<and>
   progress_date (snd (remove_progress_stage 7 two_stage_case ''hearing'')) = Some ''2024-03-01'' \<and>
   dict_get (progress_stages (snd (remove_progress_stage 7 two_stage_case ''hearing''))) ''filed''
     = Some ''2024-01-01''"
proof -
  have h1: "progress two_stage_case = ''hearing''"
    and h2: "dict_del (progress_stages two_stage_case) ''hearing'' \<noteq> []"
    by (simp_all add: two_stage_case_def new_case_def)
  have d: "progress_date two_stage_case = Some ''2024-03-01''"
    by (simp add: two_stage_case_def new_case_def)
  have e: "progress (snd (remove_progress_stage 7 two_stage_case ''hearing'')) = ''filed'' \<and>
     dict_get (progress_stages (snd (remove_progress_stage 7 two_stage_case ''hearing''))) ''filed''
     = Some ''2024-01-01''"
    by (simp add: remove_progress_stage_progress remove_progress_stage_stages dict_get_def
          two_stage_case_def new_case_def sorted_reverse_def)
  show ?thesis
    using remove_progress_stage_keeps_progress_date [OF h1 h2, of 7] h1 h2 d e by simp
qed

text \<open>
  C10. \<open>update_progress\<close> for stage \<open>s\<close> without a note deletes the note recorded for
  \<open>s\<close>, and without a time deletes the time recorded for \<open>s\<close>.
\<close>

theorem update_progress_without_note_deletes:
  "(dict_contains (progress_notes self) s \<longrightarrow>
      \<not> dict_contains (progress_notes (update_progress today now self s d None time)) s) \<and>
   (dict_contains (progress_times self) s \<longrightarrow>
      \<not> dict_contains (progress_times (update_progress today now self s d note None)) s)"
  by (simp add: update_progress_def Let_def truthy_def)

theorem update_progress_without_note_deletes_witness:
  "dict_contains (progress_notes two_stage_case) ''hearing'' \<and>
   \<not> dict_contains (progress_notes
        (update_progress ''2024-05-05'' 7 two_stage_case ''hearing'' (Some ''2024-04-01'') None (Some ''10:00'')))
        ''hearing'' \<and>
   dict_contains (progress_times two_stage_case) ''hearing'' \<and>
   \<not> dict_contains (progress_times
        (update_progress ''2024-05-05'' 7 two_stage_case ''hearing'' (Some ''2024-04-01'') (Some ''memo'') None))
        ''hearing''"
proof -
  have h1: "dict_contains (progress_notes two_stage_case) ''hearing''"
    and h2: "dict_contains (progress_times two_stage_case) ''hearing''"
    by (simp_all add: two_stage_case_def new_case_def)
  show ?thesis
    using update_progress_without_note_deletes [of two_stage_case "''hearing''" "''2024-05-05''" 7
        "Some ''2024-04-01''" "Some ''10:00''" "Some ''memo''"] h1 h2
    by simp
qed









section \<open>The controller's sagas\<close>

subsection \<open>The example collaborators, field by field\<close>

lemma demo_fields:
  "CASE_TYPE_FOLDERS demo_collaborators = [(''civil'', ''civil_cases''), (''criminal'', ''criminal_cases'')]"
  "dm_add_case demo_collaborators c w =
     (if has_case (case_id c) (case_type c) (data_manager_cases w) then (Inr False, w)
      else (Inr True, w\<lparr>data_manager_cases := data_manager_cases w @ [c]\<rparr>))"
  "dm_delete_case demo_collaborators i t w =
     (if has_case i t (data_manager_cases w)
      then (Inr True,
            w\<lparr>data_manager_cases :=
                filter (\<lambda>c. \<not> (case_id c = i \<and> case_type c = t)) (data_manager_cases w)\<rparr>)
      else (Inr False, w))"
  "dm_get_cases demo_collaborators w = (Inr (data_manager_cases w), w)"
  "dm_get_case_by_id demo_collaborators i w =
     (Inr (find (\<lambda>c. case_id c = i) (data_manager_cases w)), w)"
  "dm_save_cases demo_collaborators w = (Inr True, w)"
  "dm_update_case_id_with_files demo_collaborators old t new w =
     (if has_case old t (data_manager_cases w)
      then (Inr (True, ''case id updated''),
            w\<lparr>data_manager_cases :=
                map (\<lambda>c. if case_id c = old \<and> case_type c = t then c\<lparr>case_id := new\<rparr> else c)
                  (data_manager_cases w)\<rparr>)
      else (Inr (False, ''case not found''), w))"
  "validate_case_id_update demo_collaborators old t new w =
     (Inr (if has_case new t (validator_cases w) then (False, ''case id already in use'')
           else (True, [])), w)"
  "update_excel_content_for_case_id_change demo_collaborators old new w = (Inr (True, []), w)"
  "update_progress_files_for_case_id_change demo_collaborators old new w = (Inr (True, []), w)"
  "pm_add_progress_stage demo_collaborators i stage date note time w =
     (if list_ex (\<lambda>c. case_id c = i) (data_manager_cases w)
      then (Inr True,
            w\<lparr>data_manager_cases :=
                on_case i (\<lambda>c. update_progress date 1 c stage (Some date) note time)
                  (data_manager_cases w)\<rparr>)
      else (Inr False, w))"
  "pm_update_progress_stage demo_collaborators i stage date note time w =
     (if list_ex (\<lambda>c. case_id c = i) (data_manager_cases w)
      then (Inr True,
            w\<lparr>data_manager_cases :=
                on_case i (\<lambda>c. update_progress date 1 c stage (Some date) note time)
                  (data_manager_cases w)\<rparr>)
      else (Inr False, w))"
  "pm_remove_progress_stage demo_collaborators i stage w =
     (if list_ex (\<lambda>c. case_id c = i \<and> dict_contains (progress_stages c) stage)
           (data_manager_cases w)
      then (Inr True,
            w\<lparr>data_manager_cases :=
                on_case i (\<lambda>c. snd (remove_progress_stage 1 c stage)) (data_manager_cases w)\<rparr>)
      else (Inr False, w))"
  "shutil_rmtree demo_collaborators p w = (Inr (), w\<lparr>fs := fs w - {p}\<rparr>)"
  by (simp_all add: demo_collaborators_def)

lemma two_stage_case_fields:
  "case_id two_stage_case = ''A1''" "case_type two_stage_case = ''civil''"
  "client two_stage_case = ''Mr. X''"
  "progress_stages two_stage_case = [(''filed'', ''2024-01-01''), (''hearing'', ''2024-03-01'')]"
  by (simp_all add: two_stage_case_def new_case_def)

lemma demo_world_fields:
  "data_manager_cases demo_world = [two_stage_case]"
  "validator_cases demo_world = [two_stage_case]"
  "fs demo_world = {''data'', ''data/civil_cases'', ''data/civil_cases/Mr. X''}"
  "data_manager_cases demo_world_no_folder = [two_stage_case]"
  "fs demo_world_no_folder = {''data'', ''data/civil_cases''}"
  by (simp_all add: demo_world_def demo_world_no_folder_def)

lemma demo_resolvers:
  "patched_get_case_folder_path demo_collaborators demo_data_folder two_stage_case w
     = (Inr (Some ''data/civil_cases/Mr. X''), w)"
  "basic_get_case_folder_path demo_collaborators demo_data_folder two_stage_case w
     = (Inr (if ''data/civil_cases/Mr. X'' \<in> fs w then Some ''data/civil_cases/Mr. X'' else None), w)"
  by (simp_all add: patched_get_case_folder_path_def basic_get_case_folder_path_def Let_def
        demo_fields two_stage_case_fields dict_get_default_def dict_get_def demo_data_folder_def)

lemma find_A1: "get_case_by_id demo_collaborators ''A1'' demo_world = (Inr (Some two_stage_case), demo_world)"
  "get_case_by_id demo_collaborators ''A1'' demo_world_no_folder = (Inr (Some two_stage_case), demo_world_no_folder)"
  by (simp_all add: get_case_by_id_def demo_fields demo_world_fields two_stage_case_fields)

lemma patched_controller_fields:
  "fm_get_case_folder_path (folder_manager patched_controller)
     = Some (patched_get_case_folder_path demo_collaborators demo_data_folder)"
  "fm_delete_case_folder (folder_manager patched_controller) = None"
  "fm_operations (folder_manager patched_controller) = None"
  by (simp_all add: patched_controller_def init_folder_manager_def patch_folder_manager_def
        bare_folder_manager_def)

lemma variant_fields:
  "validate_case_id_update excel_raises = validate_case_id_update demo_collaborators"
  "dm_update_case_id_with_files excel_raises = dm_update_case_id_with_files demo_collaborators"
  "update_excel_content_for_case_id_change excel_raises old new w
     = (Inl (OtherException ''file is locked''), w)"
  "validate_case_id_update excel_reports_failure = validate_case_id_update demo_collaborators"
  "dm_update_case_id_with_files excel_reports_failure
     = dm_update_case_id_with_files demo_collaborators"
  "update_excel_content_for_case_id_change excel_reports_failure old new w
     = (Inr (False, ''file is locked''), w)"
  "update_progress_files_for_case_id_change excel_reports_failure
     = update_progress_files_for_case_id_change demo_collaborators"
  "pm_add_progress_stage save_fails = pm_add_progress_stage demo_collaborators"
  "dm_save_cases save_fails w = (Inr False, w)"
  "dm_get_case_by_id rmtree_denied = dm_get_case_by_id demo_collaborators"
  "dm_get_cases rmtree_denied = dm_get_cases demo_collaborators"
  "dm_delete_case rmtree_denied = dm_delete_case demo_collaborators"
  "shutil_rmtree rmtree_denied p w = (Inl (OtherException ''permission denied''), w)"
  by (simp_all add: excel_raises_def excel_reports_failure_def save_fails_def rmtree_denied_def)

lemma careless_controller_fields:
  "fm_get_case_folder_path (folder_manager careless_controller)
     = Some (patched_get_case_folder_path demo_collaborators demo_data_folder)"
  "fm_delete_case_folder (folder_manager careless_controller) = Some (\<lambda>c w. (Inr True, w))"
  "fm_operations (folder_manager careless_controller) = None"
  by (simp_all add: careless_controller_def init_folder_manager_def patch_folder_manager_def
        bare_folder_manager_def)

lemma failing_folder_creation_fields:
  "fm_create_case_folder_structure (folder_manager failing_folder_creation)
     = Some (\<lambda>c w. (Inl (OtherException ''disk full''), w))"
  by (simp add: failing_folder_creation_def bare_folder_manager_def)

text \<open>The resolver that \<open>__init__\<close> selects, and the join of plain components.\<close>

lemma basic_resolver:
  "fm_get_case_folder_path (init_folder_manager E d None None) = Some (basic_get_case_folder_path E d)"
  by (simp add: init_folder_manager_def create_basic_folder_manager_def)

lemma patched_resolver:
  "fm_get_case_folder_path m = None \<Longrightarrow>
   fm_get_case_folder_path (init_folder_manager E d (Some m) old) = Some (patched_get_case_folder_path E d)"
  by (simp add: init_folder_manager_def patch_folder_manager_def)

lemma os_path_join_plain:
  assumes "d \<noteq> []" "last d \<noteq> CHR ''/''" "f \<noteq> []" "hd f \<noteq> CHR ''/''" "last f \<noteq> CHR ''/''"
    "n = [] \<or> hd n \<noteq> CHR ''/''"
  shows "os_path_join d [f, n] = d @ ''/'' @ f @ ''/'' @ n"
  using assms by auto


subsection \<open>Adding a case\<close>

text \<open>
  C5. The result of \<open>add_case\<close> is true exactly when the data manager's \<open>add_case\<close>
  returned true, whatever the folder manager does afterwards; and when the data manager
  did not return true, the world is the one it left: the folder manager was not called.
\<close>

theorem add_case_result_is_metadata_outcome:
  "fst (add_case E self case_data w) = (fst (dm_add_case E case_data w) = Inr True) \<and>
   (fst (dm_add_case E case_data w) \<noteq> Inr True \<longrightarrow>
      snd (add_case E self case_data w) = snd (dm_add_case E case_data w))"
  by (cases "dm_add_case E case_data w")
     (auto simp: add_case_def Let_def split: sum.splits)

text \<open>
  A record whose id and type are taken is refused and nothing changes; a fresh one is
  added with success although creating its folder structure raises.
\<close>

theorem add_case_result_is_metadata_outcome_witness:
  "fst (dm_add_case demo_collaborators two_stage_case demo_world) \<noteq> Inr True \<and>
   add_case demo_collaborators failing_folder_creation two_stage_case demo_world
     = (False, demo_world) \<and>
   fst (dm_add_case demo_collaborators (one_stage_case\<lparr>case_id := ''A2''\<rparr>) demo_world)
     = Inr True \<and>
   fst (add_case demo_collaborators failing_folder_creation
          (one_stage_case\<lparr>case_id := ''A2''\<rparr>) demo_world) = True"
proof -
  have h1: "dm_add_case demo_collaborators two_stage_case demo_world = (Inr False, demo_world)"
    by (simp add: demo_fields has_case_def demo_world_fields)
  have h2: "fst (dm_add_case demo_collaborators (one_stage_case\<lparr>case_id := ''A2''\<rparr>) demo_world)
      = Inr True"
    by (simp add: demo_fields has_case_def demo_world_fields two_stage_case_fields)
  show ?thesis
    using add_case_result_is_metadata_outcome
        [of demo_collaborators failing_folder_creation two_stage_case demo_world]
      add_case_result_is_metadata_outcome
        [of demo_collaborators failing_folder_creation "one_stage_case\<lparr>case_id := ''A2''\<rparr>"
          demo_world]
      h1 h2
    by (simp add: prod_eq_iff)
qed

subsection \<open>Progress stages through the controller\<close>






subsection \<open>Deleting a case and its folder\<close>

text \<open>
  C6. When \<open>delete_case_folder\<close> returns true, the folder path it resolved does not
  exist in the world it leaves; and when the deletion attempts report success while
  the path still exists, it returns false.
\<close>

theorem delete_case_folder_success_is_verified:
  "(delete_case_folder E self i w = (True, w') \<longrightarrow>
      (\<exists>c w0 p w1. get_case_by_id E i w = (Inr (Some c), w0) \<and>
         resolve_folder_path self c w0 = (Some p, w1) \<and> p \<notin> fs w')) \<and>
   (get_case_by_id E i w = (Inr (Some c), w0) \<and>
    resolve_folder_path self c w0 = (Some p, w1) \<and> p \<noteq> [] \<and> p \<in> fs w1 \<and>
    attempt_deletion E self c p w1 = (True, w2) \<and> p \<in> fs w2 \<longrightarrow>
      delete_case_folder E self i w = (False, w2))"
proof (intro conjI impI)
  assume ok: "delete_case_folder E self i w = (True, w')"
  obtain r w0 where g: "get_case_by_id E i w = (r, w0)" by (cases "get_case_by_id E i w")
  with ok obtain c where r: "r = Inr (Some c)"
    by (auto simp: delete_case_folder_def split: sum.splits option.splits)
  obtain fp w1 where rs: "resolve_folder_path self c w0 = (fp, w1)"
    by (cases "resolve_folder_path self c w0")
  with ok g r obtain p where fp: "fp = Some p"
    by (cases fp) (auto simp: delete_case_folder_def truthy_def)
  obtain d w2 where at: "attempt_deletion E self c p w1 = (d, w2)"
    by (cases "attempt_deletion E self c p w1")
  have "p \<notin> fs w'"
    using ok g r rs fp at
    by (auto simp: delete_case_folder_def truthy_def split: if_splits)
  with g r rs fp show "\<exists>c w0 p w1. get_case_by_id E i w = (Inr (Some c), w0) \<and>
         resolve_folder_path self c w0 = (Some p, w1) \<and> p \<notin> fs w'"
    by blast
next
  assume "get_case_by_id E i w = (Inr (Some c), w0) \<and>
    resolve_folder_path self c w0 = (Some p, w1) \<and> p \<noteq> [] \<and> p \<in> fs w1 \<and>
    attempt_deletion E self c p w1 = (True, w2) \<and> p \<in> fs w2"
  then show "delete_case_folder E self i w = (False, w2)"
    by (simp add: delete_case_folder_def truthy_def)
qed

text \<open>
  With \<open>rmtree\<close> as the only means, the folder of A1 is removed and the result is
  true; with a folder manager whose deletion reports success and removes nothing, the
  result is false.
\<close>

lemma attempt_careless:
  "attempt_deletion demo_collaborators careless_controller two_stage_case
     ''data/civil_cases/Mr. X'' demo_world = (True, demo_world)"
  by (simp add: attempt_deletion_def careless_controller_fields)

lemma resolve_patched:
  "resolve_folder_path patched_controller two_stage_case w = (Some ''data/civil_cases/Mr. X'', w)"
  "resolve_folder_path careless_controller two_stage_case w = (Some ''data/civil_cases/Mr. X'', w)"
  by (simp_all add: resolve_folder_path_def patched_controller_fields careless_controller_fields
        demo_resolvers truthy_def)

lemma delete_folder_by_rmtree:
  "delete_case_folder demo_collaborators patched_controller ''A1'' demo_world
     = (True, demo_world_no_folder)"
  by (simp add: delete_case_folder_def find_A1 resolve_patched truthy_def demo_world_fields
        attempt_deletion_def patched_controller_fields demo_fields)
     (simp add: demo_world_def demo_world_no_folder_def insert_Diff_if)

theorem delete_case_folder_success_is_verified_witness:
  "delete_case_folder demo_collaborators patched_controller ''A1'' demo_world
     = (True, demo_world_no_folder) \<and>
   ''data/civil_cases/Mr. X'' \<notin> fs demo_world_no_folder \<and>
   attempt_deletion demo_collaborators careless_controller two_stage_case
     ''data/civil_cases/Mr. X'' demo_world = (True, demo_world) \<and>
   ''data/civil_cases/Mr. X'' \<in> fs demo_world \<and>
   delete_case_folder demo_collaborators careless_controller ''A1'' demo_world
     = (False, demo_world)"
proof -
  have "\<exists>c w0 p w1. get_case_by_id demo_collaborators ''A1'' demo_world = (Inr (Some c), w0) \<and>
      resolve_folder_path patched_controller c w0 = (Some p, w1) \<and> p \<notin> fs demo_world_no_folder"
    using delete_case_folder_success_is_verified
        [of demo_collaborators patched_controller "''A1''" demo_world demo_world_no_folder]
      delete_folder_by_rmtree
    by blast
  then have gone: "''data/civil_cases/Mr. X'' \<notin> fs demo_world_no_folder"
    by (simp add: find_A1 resolve_patched)
  have "delete_case_folder demo_collaborators careless_controller ''A1'' demo_world
      = (False, demo_world)"
    using delete_case_folder_success_is_verified
        [of demo_collaborators careless_controller "''A1''" demo_world _ two_stage_case demo_world
          "''data/civil_cases/Mr. X''" demo_world demo_world]
      find_A1 resolve_patched attempt_careless
    by (simp add: demo_world_fields)
  with gone show ?thesis
    using delete_folder_by_rmtree attempt_careless by (simp add: demo_world_fields)
qed







subsection \<open>Renaming a case id\<close>

text \<open>
  C4. Once the data manager has renamed the case, the result of \<open>update_case_id\<close>
  should be success whatever happens in the spreadsheet and progress-file steps, which
  the source marks as not interrupting the main flow. Unlike the best-effort steps of
  \<open>add_case\<close> and \<open>delete_case\<close>, these two calls have no handler of their own, so
  an exception from one of them ends the method in its outer handler: with a
  spreadsheet step that raises, validation passes, the data manager renames A1 to A9
  and reports success, and \<open>update_case_id\<close> returns failure with the record already
  renamed.
\<close>

theorem update_case_id_fails_when_excel_raises:
  "fst (validate_case_id_update excel_raises ''A1'' ''civil'' ''A9'' demo_world) = Inr (True, []) \<and>
   fst (dm_update_case_id_with_files excel_raises ''A1'' ''civil'' ''A9'' demo_world)
     = Inr (True, ''case id updated'') \<and>
   fst (fst (update_case_id excel_raises ''A1'' ''civil'' ''A9'' demo_world)) = False \<and>
   has_case ''A9'' ''civil''
     (data_manager_cases (snd (update_case_id excel_raises ''A1'' ''civil'' ''A9'' demo_world)))"
  by (simp add: update_case_id_def variant_fields demo_fields has_case_def demo_world_fields
        two_stage_case_fields)

text \<open>
  What \<open>update_case_id\<close> does when its steps return. A validation that returns
  failure ends it with that failure in the world the validator left, no other
  collaborator being called; a data manager that returns failure or raises ends it with
  failure; and after a data manager that returned success, the result is success
  whatever success flags the spreadsheet and progress-file steps return: their flags
  only decide which parts the message has.
\<close>

theorem update_case_id_outcome:
  "(validate_case_id_update E old t new w = (Inr (False, vm), w1) \<longrightarrow>
      update_case_id E old t new w = ((False, vm), w1)) \<and>
   (validate_case_id_update E old t new w = (Inr (True, vm), w1) \<and>
    dm_update_case_id_with_files E old t new w1 = (Inr (False, dm), w2) \<longrightarrow>
      update_case_id E old t new w = ((False, dm), w2)) \<and>
   (validate_case_id_update E old t new w = (Inr (True, vm), w1) \<and>
    dm_update_case_id_with_files E old t new w1 = (Inl e, w2) \<longrightarrow>
      update_case_id E old t new w = ((False, coordination_failed_prefix @ exn_text e), w2)) \<and>
   (validate_case_id_update E old t new w = (Inr (True, vm), w1) \<and>
    dm_update_case_id_with_files E old t new w1 = (Inr (True, dm), w2) \<and>
    update_excel_content_for_case_id_change E old new w2 = (Inr (excel_ok, em), w3) \<and>
    update_progress_files_for_case_id_change E old new w3 = (Inr (progress_ok, pm), w4) \<longrightarrow>
      update_case_id E old t new w =
        ((True, str_join fullwidth_comma
                  ([dm] @ (if excel_ok then [excel_updated_msg] else [])
                        @ (if progress_ok then [progress_files_updated_msg] else []))),
         sync_managers w4))"
  by (simp add: update_case_id_def)

text \<open>
  Renaming A1 to the id of the second civil case is refused and leaves the world as it
  was; renaming a case that is not stored fails in the data manager; renaming A1 to A9
  with a spreadsheet step that reports failure succeeds, and the message names the
  renamed record and the progress files only.
\<close>

theorem update_case_id_outcome_witness:
  "validate_case_id_update demo_collaborators ''A1'' ''civil'' ''A2'' demo_world_two_cases
     = (Inr (False, ''case id already in use''), demo_world_two_cases) \<and>
   update_case_id demo_collaborators ''A1'' ''civil'' ''A2'' demo_world_two_cases
     = ((False, ''case id already in use''), demo_world_two_cases) \<and>
   dm_update_case_id_with_files demo_collaborators ''B7'' ''civil'' ''A9'' demo_world
     = (Inr (False, ''case not found''), demo_world) \<and>
   update_case_id demo_collaborators ''B7'' ''civil'' ''A9'' demo_world
     = ((False, ''case not found''), demo_world) \<and>
   fst (update_excel_content_for_case_id_change excel_reports_failure ''A1'' ''A9''
          (snd (dm_update_case_id_with_files demo_collaborators ''A1'' ''civil'' ''A9'' demo_world)))
     = Inr (False, ''file is locked'') \<and>
   fst (update_case_id excel_reports_failure ''A1'' ''civil'' ''A9'' demo_world)
     = (True, ''case id updated'' @ fullwidth_comma @ progress_files_updated_msg)"
proof -
  have v1: "validate_case_id_update demo_collaborators ''A1'' ''civil'' ''A2'' demo_world_two_cases
      = (Inr (False, ''case id already in use''), demo_world_two_cases)"
    by (simp add: demo_fields has_case_def demo_world_two_cases_def demo_world_def
          two_stage_case_fields one_stage_case_def new_case_def)
  have r1: "update_case_id demo_collaborators ''A1'' ''civil'' ''A2'' demo_world_two_cases
      = ((False, ''case id already in use''), demo_world_two_cases)"
    using update_case_id_outcome [where E = demo_collaborators and old = "''A1''"
        and t = "''civil''" and new = "''A2''" and w = demo_world_two_cases
        and vm = "''case id already in use''" and ?w1.0 = demo_world_two_cases] v1
    by simp
  have v2: "validate_case_id_update demo_collaborators ''B7'' ''civil'' ''A9'' demo_world
      = (Inr (True, []), demo_world)"
    by (simp add: demo_fields has_case_def demo_world_fields two_stage_case_fields)
  have d2: "dm_update_case_id_with_files demo_collaborators ''B7'' ''civil'' ''A9'' demo_world
      = (Inr (False, ''case not found''), demo_world)"
    by (simp add: demo_fields has_case_def demo_world_fields two_stage_case_fields)
  have r2: "update_case_id demo_collaborators ''B7'' ''civil'' ''A9'' demo_world
      = ((False, ''case not found''), demo_world)"
    using update_case_id_outcome [where E = demo_collaborators and old = "''B7''"
        and t = "''civil''" and new = "''A9''" and w = demo_world and vm = "[]"
        and ?w1.0 = demo_world and dm = "''case not found''" and ?w2.0 = demo_world] v2 d2
    by simp
  define w2 where
    "w2 = snd (dm_update_case_id_with_files demo_collaborators ''A1'' ''civil'' ''A9'' demo_world)"
  have v3: "validate_case_id_update excel_reports_failure ''A1'' ''civil'' ''A9'' demo_world
      = (Inr (True, []), demo_world)"
    by (simp add: variant_fields demo_fields has_case_def demo_world_fields two_stage_case_fields)
  have d3: "dm_update_case_id_with_files excel_reports_failure ''A1'' ''civil'' ''A9'' demo_world
      = (Inr (True, ''case id updated''), w2)"
    by (simp add: w2_def variant_fields demo_fields has_case_def demo_world_fields
          two_stage_case_fields)
  have e3: "update_excel_content_for_case_id_change excel_reports_failure ''A1'' ''A9'' w2
      = (Inr (False, ''file is locked''), w2)"
    by (simp add: variant_fields)
  have p3: "update_progress_files_for_case_id_change excel_reports_failure ''A1'' ''A9'' w2
      = (Inr (True, []), w2)"
    by (simp add: variant_fields demo_fields)
  have r3: "fst (update_case_id excel_reports_failure ''A1'' ''civil'' ''A9'' demo_world)
      = (True, ''case id updated'' @ fullwidth_comma @ progress_files_updated_msg)"
    using update_case_id_outcome [where E = excel_reports_failure and old = "''A1''"
        and t = "''civil''" and new = "''A9''" and w = demo_world and vm = "[]"
        and ?w1.0 = demo_world and dm = "''case id updated''" and ?w2.0 = w2
        and excel_ok = False and em = "''file is locked''" and ?w3.0 = w2
        and progress_ok = True and pm = "[]" and ?w4.0 = w2] v3 d3 e3 p3
    by simp
  show ?thesis using v1 r1 d2 r2 e3 r3 unfolding w2_def by simp
qed

subsection \<open>Resolving the folder path\<close>

text \<open>
  C8. The claim that every resolver returns the path only when it exists on disk fails
  for the resolver that \<open>_patch_folder_manager\<close> attaches, which returns the joined
  path without looking at the disk: for the case A1, whose folder does not exist, the
  controller with the patched folder manager returns the path.
\<close>

theorem patched_resolver_returns_absent_path:
  "''data/civil_cases/Mr. X'' \<notin> fs demo_world_no_folder \<and>
   get_case_folder_path demo_collaborators patched_controller ''A1'' demo_world_no_folder
     = (Some ''data/civil_cases/Mr. X'', demo_world_no_folder)"
  by (simp add: get_case_folder_path_def find_A1 patched_controller_fields
        demo_resolvers demo_world_fields)


text \<open>
  C8, as amended. Both resolvers compute the data folder joined with the folder name
  that the case-type table gives for the case type (the case type itself when the
  table has no entry) and with the client name, and leave the world as it is. The
  basic resolver returns the path when it exists on disk and \<open>None\<close> otherwise; the
  patched one returns the path whether it exists or not. The controller returns what
  the resolver it selected returns. For plain components the path is the three
  components separated by slashes.
\<close>

theorem folder_path_resolution:
  assumes "folder = dict_get_default (CASE_TYPE_FOLDERS E) (case_type c) (case_type c)"
    and "path = os_path_join d [folder, client c]"
  shows "basic_get_case_folder_path E d c w
           = (Inr (if path \<in> fs w then Some path else None), w) \<and>
         patched_get_case_folder_path E d c w = (Inr (Some path), w) \<and>
         (get_case_by_id E i w = (Inr (Some c), w1) \<longrightarrow>
            get_case_folder_path E
                \<lparr>data_folder = d, folder_manager = init_folder_manager E d None None\<rparr> i w
              = (if path \<in> fs w1 then Some path else None, w1) \<and>
            (fm_get_case_folder_path m = None \<longrightarrow>
               get_case_folder_path E
                   \<lparr>data_folder = d, folder_manager = init_folder_manager E d (Some m) old\<rparr> i w
                 = (Some path, w1))) \<and>
         (d \<noteq> [] \<and> last d \<noteq> CHR ''/'' \<and> folder \<noteq> [] \<and> hd folder \<noteq> CHR ''/'' \<and>
          last folder \<noteq> CHR ''/'' \<and> (client c = [] \<or> hd (client c) \<noteq> CHR ''/'') \<longrightarrow>
            path = d @ ''/'' @ folder @ ''/'' @ client c)"
proof (intro conjI impI)
  show "basic_get_case_folder_path E d c w = (Inr (if path \<in> fs w then Some path else None), w)"
    using assms by (simp add: basic_get_case_folder_path_def Let_def)
  show "patched_get_case_folder_path E d c w = (Inr (Some path), w)"
    using assms by (simp add: patched_get_case_folder_path_def Let_def)
next
  assume "get_case_by_id E i w = (Inr (Some c), w1)"
  then show "get_case_folder_path E
                \<lparr>data_folder = d, folder_manager = init_folder_manager E d None None\<rparr> i w
              = (if path \<in> fs w1 then Some path else None, w1)"
    using assms
    by (simp add: get_case_folder_path_def basic_resolver basic_get_case_folder_path_def Let_def)
next
  assume "get_case_by_id E i w = (Inr (Some c), w1)" and "fm_get_case_folder_path m = None"
  then show "get_case_folder_path E
                   \<lparr>data_folder = d, folder_manager = init_folder_manager E d (Some m) old\<rparr> i w
                 = (Some path, w1)"
    using assms
    by (simp add: get_case_folder_path_def patched_resolver patched_get_case_folder_path_def
          Let_def)
next
  assume "d \<noteq> [] \<and> last d \<noteq> CHR ''/'' \<and> folder \<noteq> [] \<and> hd folder \<noteq> CHR ''/'' \<and>
          last folder \<noteq> CHR ''/'' \<and> (client c = [] \<or> hd (client c) \<noteq> CHR ''/'')"
  then show "path = d @ ''/'' @ folder @ ''/'' @ client c"
    unfolding assms(2) by (intro os_path_join_plain) simp_all
qed

text \<open>
  For A1 the path is data/civil\_cases/Mr. X; the basic controller returns it when the
  folder exists and \<open>None\<close> when it does not, and neither call changes the world.
\<close>

theorem folder_path_resolution_witness:
  "dict_get_default (CASE_TYPE_FOLDERS demo_collaborators) (case_type two_stage_case)
     (case_type two_stage_case) = ''civil_cases'' \<and>
   os_path_join demo_data_folder [''civil_cases'', client two_stage_case]
     = ''data/civil_cases/Mr. X'' \<and>
   get_case_by_id demo_collaborators ''A1'' demo_world = (Inr (Some two_stage_case), demo_world) \<and>
   get_case_folder_path demo_collaborators basic_controller ''A1'' demo_world
     = (Some ''data/civil_cases/Mr. X'', demo_world) \<and>
   get_case_folder_path demo_collaborators basic_controller ''A1'' demo_world_no_folder
     = (None, demo_world_no_folder) \<and>
   fm_get_case_folder_path bare_folder_manager = None \<and>
   get_case_folder_path demo_collaborators patched_controller ''A1'' demo_world
     = (Some ''data/civil_cases/Mr. X'', demo_world)"
proof -
  have f: "''civil_cases'' = dict_get_default (CASE_TYPE_FOLDERS demo_collaborators)
      (case_type two_stage_case) (case_type two_stage_case)"
    by (simp add: demo_fields two_stage_case_fields dict_get_default_def dict_get_def)
  have p: "''data/civil_cases/Mr. X'' = os_path_join demo_data_folder [''civil_cases'', client two_stage_case]"
    by (simp add: two_stage_case_fields demo_data_folder_def)
  have b: "fm_get_case_folder_path bare_folder_manager = None"
    by (simp add: bare_folder_manager_def)
  have r1: "get_case_folder_path demo_collaborators basic_controller ''A1'' demo_world
      = (Some ''data/civil_cases/Mr. X'', demo_world) \<and>
     get_case_folder_path demo_collaborators patched_controller ''A1'' demo_world
      = (Some ''data/civil_cases/Mr. X'', demo_world)"
    using folder_path_resolution [OF f p, of demo_world "''A1''" demo_world bare_folder_manager None]
      find_A1(1) b
    by (simp add: basic_controller_def patched_controller_def demo_world_fields)
  have r2: "get_case_folder_path demo_collaborators basic_controller ''A1'' demo_world_no_folder
      = (None, demo_world_no_folder)"
    using folder_path_resolution [OF f p, of demo_world_no_folder "''A1''" demo_world_no_folder
        bare_folder_manager None] find_A1(2)
    by (simp add: basic_controller_def demo_world_fields)
  show ?thesis using f [symmetric] p [symmetric] find_A1(1) b r1 r2 by simp
qed

end
